theory Spec2Isabelle
  imports Complex_Main
begin

section \<open>JavaScript values and array built-ins\<close>

text \<open>
  A JavaScript \<open>number\<close> is modelled as a \<open>real\<close>: the only arithmetic the viewport
  performs is halving a pixel count and negating it. An object is known by its reference
  (a \<open>nat\<close>); \<open>===\<close> on objects is equality of references.
\<close>

datatype js_any = Obj "(string \<times> js_any) list"

datatype error = Error string

text \<open>
  \<open>Array.prototype.indexOf\<close>: the first index whose element is strictly equal to the
  argument, \<open>-1\<close> when there is none.
\<close>

fun indexOf_from :: "'a \<Rightarrow> 'a list \<Rightarrow> int \<Rightarrow> int" where
  "indexOf_from x [] k = - 1"
| "indexOf_from x (y # ys) k = (if y = x then k else indexOf_from x ys (k + 1))"

definition indexOf :: "'a \<Rightarrow> 'a list \<Rightarrow> int" where
  "indexOf x xs = indexOf_from x xs 0"

text \<open>
  \<open>Array.prototype.splice(start, deleteCount)\<close>, as the array it leaves behind. A negative
  \<open>start\<close> counts from the end of the array (clamped at 0), a \<open>start\<close> beyond the end is
  the end, and the delete count is clamped to what is left after the start.
\<close>

definition splice_js :: "int \<Rightarrow> int \<Rightarrow> 'a list \<Rightarrow> 'a list" where
  "splice_js start deleteCount xs =
     (let len = int (length xs);
          actualStart = (if start < 0 then max (len + start) 0 else min start len);
          actualDeleteCount = min (max deleteCount 0) (len - actualStart)
      in take (nat actualStart) xs @ drop (nat (actualStart + actualDeleteCount)) xs)"

definition push :: "'a \<Rightarrow> 'a list \<Rightarrow> 'a list" where
  "push x xs = xs @ [x]"

section \<open>Layers\<close>

text \<open>
  A layer is an object on the heap. \<open>layer instanceof ChannelLayer\<close> is the discriminator
  \<open>is_ChannelLayer\<close>; only a ChannelLayer carries an image size (width, height).
\<close>

type_synonym layer_ref = nat

datatype layer_obj =
    is_ChannelLayer: ChannelLayer (imageSize: "real \<times> real")
  | OtherLayer

type_synonym layer_heap = "layer_ref \<Rightarrow> layer_obj"

section \<open>The rendering engine's map and view\<close>

type_synonym geometry_ref = nat

type_synonym ol_size = "(real \<times> real) option"

record ol_projection =
  code :: string
  units :: string
  extent :: "real list"

record view_options =
  projection :: ol_projection
  center :: "real list"
  zoom :: real

record fit_options =
  padding :: "real list"

record fit_request =
  fitGeometry :: geometry_ref
  fitSize :: ol_size
  fitOptions :: fit_options

text \<open>
  Modelled from the spec: the engine's \<open>ol.View\<close> and \<open>ol.Map\<close> classes, which
  Viewport.ts only calls. A view is what the viewport's code tells it: the construction
  options it was built from (none for a view built without options) and the last
  \<open>fit\<close> request that framed it. A map holds its render list (the layers attached to
  it), its current view and its size.
\<close>

record ol_view =
  viewOptions :: "view_options option"
  fitted :: "fit_request option"

record ol_map =
  mapLayers :: "layer_ref list"
  mapView :: ol_view
  mapSize :: ol_size

text \<open>Modelled from the spec: \<open>new ol.View(options)\<close>, a view not yet fitted to anything.\<close>

definition ol_View_new :: "view_options option \<Rightarrow> ol_view" where
  "ol_View_new opts = \<lparr>viewOptions = opts, fitted = None\<rparr>"

text \<open>
  Modelled from the spec: \<open>new ol.Map({layers: [], controls: [], ...})\<close>, a map with an
  empty render list, the view the engine builds when it is given none, and no size yet.
\<close>

definition ol_Map_new :: ol_map where
  "ol_Map_new = \<lparr>mapLayers = [], mapView = ol_View_new None, mapSize = None\<rparr>"

text \<open>Modelled from the spec: \<open>map.setView(view)\<close> installs the view as the current one.\<close>

definition setView :: "ol_view \<Rightarrow> ol_map \<Rightarrow> ol_map" where
  "setView v m = m\<lparr>mapView := v\<rparr>"

definition getView :: "ol_map \<Rightarrow> ol_view" where
  "getView m = mapView m"

definition getSize :: "ol_map \<Rightarrow> ol_size" where
  "getSize m = mapSize m"

text \<open>
  Modelled from the spec: \<open>view.fit(geometry, size, options)\<close> fits the view to the
  bounding geometry, with the padding of the options; the view keeps the request.
\<close>

definition fit :: "geometry_ref \<Rightarrow> ol_size \<Rightarrow> fit_options \<Rightarrow> ol_view \<Rightarrow> ol_view" where
  "fit g sz opts v = v\<lparr>fitted := Some \<lparr>fitGeometry = g, fitSize = sz, fitOptions = opts\<rparr>\<rparr>"

text \<open>
  Modelled from the spec: \<open>Layer.addToMap(map)\<close> attaches the layer to the map's render
  list; \<open>Layer.removeFromMap(map)\<close> detaches it (its first occurrence on that list).
  Viewport.ts only calls the two methods of the Layer classes.
\<close>

definition addToMap :: "layer_ref \<Rightarrow> ol_map \<Rightarrow> ol_map" where
  "addToMap layer m = m\<lparr>mapLayers := mapLayers m @ [layer]\<rparr>"

definition removeFromMap :: "layer_ref \<Rightarrow> ol_map \<Rightarrow> ol_map" where
  "removeFromMap layer m = m\<lparr>mapLayers := remove1 layer (mapLayers m)\<rparr>"

section \<open>Viewport\<close>

record viewport =
  map' :: ol_map
  layers :: "layer_ref list"

definition Viewport_new :: viewport where
  "Viewport_new = \<lparr>map' = ol_Map_new, layers = []\<rparr>"

definition invalid_first_layer :: error where
  "invalid_first_layer =
     Error ''The first layer to be added has to be a ChannelLayer in order to set the view!''"

text \<open>The private method \<open>_setView(mapWidth, mapHeight)\<close>.\<close>

definition Viewport_setView :: "real \<Rightarrow> real \<Rightarrow> viewport \<Rightarrow> viewport" where
  "Viewport_setView mapWidth mapHeight vp =
     (let width = mapWidth;
          height = mapHeight;
          center = [width / 2, (- height) / 2];
          extent = [0, 0, width, height];
          view = ol_View_new (Some
            \<lparr>projection = \<lparr>code = ''tm'', units = ''pixels'', extent = extent\<rparr>,
             center = center,
             zoom = 0\<rparr>)
      in vp\<lparr>map' := setView view (map' vp)\<rparr>)"

text \<open>
  \<open>addLayer(layer)\<close>: the outcome (\<open>Inl\<close> the thrown error, \<open>Inr ()\<close> a normal return)
  and the viewport as the call leaves it. The throw comes after \<open>layer.addToMap\<close>, so
  the state returned with an error is the one after that call. The image size is read
  only on the path where the layer has passed the \<open>instanceof\<close> test.
\<close>

definition addLayer :: "layer_heap \<Rightarrow> layer_ref \<Rightarrow> viewport \<Rightarrow> (error + unit) \<times> viewport" where
  "addLayer h layer vp =
     (let vp1 = vp\<lparr>map' := addToMap layer (map' vp)\<rparr>;
          alreadyHasLayers = (length (layers vp1) \<noteq> 0)
      in if \<not> alreadyHasLayers \<and> \<not> is_ChannelLayer (h layer)
         then (Inl invalid_first_layer, vp1)
         else
           (let vp2 = (if \<not> alreadyHasLayers
                       then Viewport_setView (fst (imageSize (h layer)))
                              (snd (imageSize (h layer))) vp1
                       else vp1)
            in (Inr (), vp2\<lparr>layers := push layer (layers vp2)\<rparr>)))"

definition removeLayer :: "layer_ref \<Rightarrow> viewport \<Rightarrow> viewport" where
  "removeLayer layer vp =
     (let vp1 = vp\<lparr>map' := removeFromMap layer (map' vp)\<rparr>;
          idx = indexOf layer (layers vp1)
      in vp1\<lparr>layers := splice_js idx 1 (layers vp1)\<rparr>)"

text \<open>
  A map object is reached through \<open>obj.getVisual().olFeature.getGeometry()\<close>; the classes
  on that path are only read by Viewport.ts and are kept as plain records.
\<close>

record ol_feature =
  getGeometry :: geometry_ref

record visual =
  olFeature :: ol_feature

record map_object =
  getVisual :: visual

definition goToMapObject :: "map_object \<Rightarrow> viewport \<Rightarrow> viewport" where
  "goToMapObject obj vp =
     (let feat = olFeature (getVisual obj)
      in vp\<lparr>map' := (map' vp)\<lparr>mapView :=
           fit (getGeometry feat) (getSize (map' vp)) \<lparr>padding = [100, 100, 100, 100]\<rparr>
             (getView (map' vp))\<rparr>\<rparr>)"

text \<open>\<open>serialize()\<close>: the value returned and the viewport as the call leaves it.\<close>

definition serialize :: "viewport \<Rightarrow> js_any \<times> viewport" where
  "serialize vp = (Obj [], vp)"

section \<open>ToolbarCtrl\<close>

text \<open>
  The toolbar's world: the controller's own \<open>tools\<close> field, the callback the
  constructor hands to \<open>$scope.viewer.tools.then\<close>, and the sibling controller
  \<open>$scope.toolUICtrl\<close>.

  Modelled from the spec: the tool-list source and the sibling controller, which
  tmToolbar.ts only calls. The source is asynchronous and resolves once: a callback
  subscribed to it waits until the resolution is delivered, runs with the resolved list,
  and never runs again. The sibling controller is the list of \<open>toggleToolWindow\<close>
  requests it has received, oldest first.
\<close>

record 'tool toolbar_world =
  tools :: "'tool list"
  toolsCallbackWaiting :: bool
  toggleToolWindowCalls :: "'tool list"

text \<open>
  The constructor: \<open>tools = []\<close>, and the callback is subscribed to the source. The
  argument is the sibling controller as the constructor finds it.
\<close>

definition ToolbarCtrl_new :: "'tool list \<Rightarrow> 'tool toolbar_world" where
  "ToolbarCtrl_new calls =
     \<lparr>tools = [], toolsCallbackWaiting = True, toggleToolWindowCalls = calls\<rparr>"

text \<open>The callback \<open>(tools) => { this.tools = tools; }\<close>.\<close>

definition toolsCallback :: "'tool list \<Rightarrow> 'tool toolbar_world \<Rightarrow> 'tool toolbar_world" where
  "toolsCallback ts w = w\<lparr>tools := ts\<rparr>"

text \<open>The tool-list source resolves with \<open>ts\<close>.\<close>

definition resolveTools :: "'tool list \<Rightarrow> 'tool toolbar_world \<Rightarrow> 'tool toolbar_world" where
  "resolveTools ts w =
     (if toolsCallbackWaiting w
      then toolsCallback ts (w\<lparr>toolsCallbackWaiting := False\<rparr>)
      else w)"

definition toggleToolWindow :: "'tool \<Rightarrow> 'tool toolbar_world \<Rightarrow> 'tool toolbar_world" where
  "toggleToolWindow tool w = w\<lparr>toggleToolWindowCalls := toggleToolWindowCalls w @ [tool]\<rparr>"

definition clickToolTab :: "'tool \<Rightarrow> 'tool toolbar_world \<Rightarrow> 'tool toolbar_world" where
  "clickToolTab tool w = toggleToolWindow tool w"

section \<open>Concrete states used to exercise the operations\<close>

text \<open>
  A heap with two channel layers, of sizes 10 x 20 (reference 1) and 30 x 40
  (reference 2); every other reference is a layer of another class.
\<close>

definition demo_heap :: layer_heap where
  "demo_heap r =
     (if r = 1 then ChannelLayer (10, 20)
      else if r = 2 then ChannelLayer (30, 40)
      else OtherLayer)"

text \<open>A fresh viewport after \<open>addLayer\<close> of channel layer 1.\<close>

definition demo_viewport :: viewport where
  "demo_viewport = snd (addLayer demo_heap 1 Viewport_new)"

text \<open>The same viewport after \<open>addLayer\<close> of layer 3, which is not a ChannelLayer.\<close>

definition demo_two_layers :: viewport where
  "demo_two_layers = snd (addLayer demo_heap 3 demo_viewport)"

section \<open>Properties of the array built-ins\<close>

lemma indexOf_from_absent: "x \<notin> set xs \<Longrightarrow> indexOf_from x xs k = - 1"
  by (induction xs arbitrary: k) auto

lemma indexOf_absent: "x \<notin> set xs \<Longrightarrow> indexOf x xs = - 1"
  by (simp add: indexOf_def indexOf_from_absent)

lemma splice_js_nat:
  "n < length xs \<Longrightarrow> splice_js (int n) 1 xs = take n xs @ drop (Suc n) xs"
  by (simp add: splice_js_def Let_def nat_add_distrib)

lemma splice_js_minus_one: "splice_js (- 1) 1 xs = butlast xs"
proof (cases "xs = []")
  case True
  then show ?thesis by (simp add: splice_js_def Let_def)
next
  case False
  then show ?thesis
    by (simp add: splice_js_def Let_def butlast_conv_take nat_diff_distrib')
qed

lemma indexOf_from_present:
  "x \<in> set xs \<Longrightarrow> indexOf_from x xs k = k + int (length (takeWhile (\<lambda>y. y \<noteq> x) xs))"
  by (induction xs arbitrary: k) auto

lemma remove1_as_take_drop:
  "x \<in> set xs \<Longrightarrow>
     remove1 x xs =
       take (length (takeWhile (\<lambda>y. y \<noteq> x) xs)) xs @
       drop (Suc (length (takeWhile (\<lambda>y. y \<noteq> x) xs))) xs"
  by (induction xs) auto

lemma splice_js_indexOf_present:
  assumes "x \<in> set xs"
  shows "splice_js (indexOf x xs) 1 xs = remove1 x xs"
proof -
  have "length (takeWhile (\<lambda>y. y \<noteq> x) xs) < length xs"
    using assms by (induction xs) auto
  with assms show ?thesis
    by (simp add: indexOf_def indexOf_from_present splice_js_nat remove1_as_take_drop)
qed

lemma splice_js_indexOf_absent:
  "x \<notin> set xs \<Longrightarrow> splice_js (indexOf x xs) 1 xs = butlast xs"
  by (simp add: indexOf_absent splice_js_minus_one)

lemma count_list_remove1:
  "x \<in> set xs \<Longrightarrow> count_list (remove1 x xs) x = count_list xs x - 1"
  by (induction xs) auto

section \<open>Helper facts about the viewport operations\<close>

lemma layers_removeLayer:
  "layers (removeLayer layer vp) =
     (if layer \<in> set (layers vp) then remove1 layer (layers vp) else butlast (layers vp))"
  by (simp add: removeLayer_def Let_def splice_js_indexOf_present splice_js_indexOf_absent)

lemma mapView_removeLayer: "mapView (map' (removeLayer layer vp)) = mapView (map' vp)"
  by (simp add: removeLayer_def Let_def removeFromMap_def)

lemma demo_viewport_eq:
  "demo_viewport =
     \<lparr>map' = \<lparr>mapLayers = [1],
              mapView = \<lparr>viewOptions = Some
                 \<lparr>projection = \<lparr>code = ''tm'', units = ''pixels'', extent = [0, 0, 10, 20]\<rparr>,
                  center = [5, - 10], zoom = 0\<rparr>,
                fitted = None\<rparr>,
              mapSize = None\<rparr>,
      layers = [1]\<rparr>"
  by (simp add: demo_viewport_def demo_heap_def Viewport_new_def ol_Map_new_def addLayer_def
      Let_def addToMap_def Viewport_setView_def setView_def ol_View_new_def push_def)

lemma layers_demo_two_layers: "layers demo_two_layers = [1, 3]"
  by (simp add: demo_two_layers_def demo_viewport_eq addLayer_def Let_def push_def)

lemma layers_removeLayer_absent:
  "layer \<notin> set (layers vp) \<Longrightarrow> layers (removeLayer layer vp) = butlast (layers vp)"
  by (simp add: layers_removeLayer)

lemma layers_removeLayer_present:
  "layer \<in> set (layers vp) \<Longrightarrow> layers (removeLayer layer vp) = remove1 layer (layers vp)"
  by (simp add: layers_removeLayer)

section \<open>Viewport.addLayer\<close>

text \<open>
  C1. When the owned layers list is empty, \<open>addLayer\<close> throws the invalid-first-layer
  error exactly when the layer is not a ChannelLayer, and returns normally exactly when
  it is one. When the owned list is not empty, \<open>addLayer\<close> returns normally for every
  layer and the owned list is the old one with the layer appended.
\<close>

theorem addLayer_throws_iff_first_not_ChannelLayer:
  "(layers vp = [] \<longrightarrow>
      (fst (addLayer h layer vp) = Inl invalid_first_layer \<longleftrightarrow> \<not> is_ChannelLayer (h layer)) \<and>
      (fst (addLayer h layer vp) = Inr () \<longleftrightarrow> is_ChannelLayer (h layer))) \<and>
   (layers vp \<noteq> [] \<longrightarrow>
      fst (addLayer h layer vp) = Inr () \<and>
      layers (snd (addLayer h layer vp)) = layers vp @ [layer])"
  by (simp add: addLayer_def Let_def push_def)

theorem addLayer_throws_iff_first_not_ChannelLayer_witness:
  "fst (addLayer demo_heap 3 Viewport_new) = Inl invalid_first_layer \<and>
   fst (addLayer demo_heap 1 Viewport_new) = Inr () \<and>
   fst (addLayer demo_heap 3 demo_viewport) = Inr () \<and>
   layers (snd (addLayer demo_heap 3 demo_viewport)) = [1, 3]"
  using addLayer_throws_iff_first_not_ChannelLayer [of Viewport_new demo_heap 3]
    addLayer_throws_iff_first_not_ChannelLayer [of Viewport_new demo_heap 1]
    addLayer_throws_iff_first_not_ChannelLayer [of demo_viewport demo_heap 3]
  by (simp add: Viewport_new_def demo_heap_def demo_viewport_eq)

text \<open>
  C2. Adding a ChannelLayer of image size (W, H) to a viewport that owns no layer
  returns normally and installs a view, not yet fitted to anything, whose projection
  has the code \<open>tm\<close>, pixel units and the extent [0, 0, W, H], whose center is
  (W / 2, - H / 2) and whose zoom is 0.
\<close>

theorem first_ChannelLayer_sets_view:
  assumes "layers vp = []" and "h layer = ChannelLayer (W, H)"
  shows "fst (addLayer h layer vp) = Inr () \<and>
         getView (map' (snd (addLayer h layer vp))) =
           \<lparr>viewOptions = Some
              \<lparr>projection = \<lparr>code = ''tm'', units = ''pixels'', extent = [0, 0, W, H]\<rparr>,
               center = [W / 2, - (H / 2)],
               zoom = 0\<rparr>,
            fitted = None\<rparr>"
  using assms
  by (simp add: addLayer_def Let_def Viewport_setView_def setView_def getView_def
      ol_View_new_def)

theorem first_ChannelLayer_sets_view_witness:
  "layers Viewport_new = [] \<and> demo_heap 2 = ChannelLayer (30, 40) \<and>
   fst (addLayer demo_heap 2 Viewport_new) = Inr () \<and>
   getView (map' (snd (addLayer demo_heap 2 Viewport_new))) =
     \<lparr>viewOptions = Some
        \<lparr>projection = \<lparr>code = ''tm'', units = ''pixels'', extent = [0, 0, 30, 40]\<rparr>,
         center = [15, - 20],
         zoom = 0\<rparr>,
      fitted = None\<rparr>"
proof -
  have e: "layers Viewport_new = []"
    by (simp add: Viewport_new_def)
  have c: "demo_heap 2 = ChannelLayer (30, 40)"
    by (simp add: demo_heap_def)
  from first_ChannelLayer_sets_view [of Viewport_new demo_heap 2 30 40, OF e c] e c show ?thesis
    by simp
qed

text \<open>
  C4. When \<open>addLayer\<close> throws (the owned list is empty and the layer is not a
  ChannelLayer), the owned list is still empty and the map's view is the one it had,
  but the map's render list has the layer appended: \<open>layer.addToMap\<close> ran before the
  check.
\<close>

theorem addLayer_throw_leaves_layer_on_map:
  assumes "layers vp = []" and "\<not> is_ChannelLayer (h layer)"
  shows "fst (addLayer h layer vp) = Inl invalid_first_layer \<and>
         layers (snd (addLayer h layer vp)) = [] \<and>
         getView (map' (snd (addLayer h layer vp))) = getView (map' vp) \<and>
         mapLayers (map' (snd (addLayer h layer vp))) = mapLayers (map' vp) @ [layer]"
  using assms
  by (simp add: addLayer_def Let_def addToMap_def getView_def)

theorem addLayer_throw_leaves_layer_on_map_witness:
  "layers Viewport_new = [] \<and> \<not> is_ChannelLayer (demo_heap 3) \<and>
   fst (addLayer demo_heap 3 Viewport_new) = Inl invalid_first_layer \<and>
   layers (snd (addLayer demo_heap 3 Viewport_new)) = [] \<and>
   getView (map' (snd (addLayer demo_heap 3 Viewport_new))) = ol_View_new None \<and>
   mapLayers (map' (snd (addLayer demo_heap 3 Viewport_new))) = [3]"
proof -
  have e: "layers Viewport_new = []"
    by (simp add: Viewport_new_def)
  have n: "\<not> is_ChannelLayer (demo_heap 3)"
    by (simp add: demo_heap_def)
  from addLayer_throw_leaves_layer_on_map [of Viewport_new demo_heap 3, OF e n] e n show ?thesis
    by (simp add: Viewport_new_def ol_Map_new_def getView_def)
qed

text \<open>
  C5 (as the code has it). While the viewport owns a layer, \<open>addLayer\<close> returns
  normally, appends the layer to the owned list and leaves the map's view as it was;
  \<open>removeLayer\<close> never touches the view. The view is derived whenever a ChannelLayer
  is added to a viewport that owns no layer, from that layer's image size: at the first
  add, and again at an add that follows removals which emptied the owned list.
\<close>

theorem view_kept_while_layers_owned:
  "(layers vp \<noteq> [] \<longrightarrow>
      fst (addLayer h layer vp) = Inr () \<and>
      layers (snd (addLayer h layer vp)) = layers vp @ [layer] \<and>
      getView (map' (snd (addLayer h layer vp))) = getView (map' vp)) \<and>
   getView (map' (removeLayer removed vp)) = getView (map' vp) \<and>
   (layers vp = [] \<and> is_ChannelLayer (h layer) \<longrightarrow>
      getView (map' (snd (addLayer h layer vp))) =
        ol_View_new (Some
          \<lparr>projection = \<lparr>code = ''tm'', units = ''pixels'',
                          extent = [0, 0, fst (imageSize (h layer)), snd (imageSize (h layer))]\<rparr>,
           center = [fst (imageSize (h layer)) / 2, - (snd (imageSize (h layer)) / 2)],
           zoom = 0\<rparr>))"
  by (simp add: addLayer_def Let_def push_def addToMap_def getView_def mapView_removeLayer
      Viewport_setView_def setView_def)

theorem view_kept_while_layers_owned_witness:
  "layers demo_viewport \<noteq> [] \<and>
   fst (addLayer demo_heap 2 demo_viewport) = Inr () \<and>
   layers (snd (addLayer demo_heap 2 demo_viewport)) = [1, 2] \<and>
   getView (map' (snd (addLayer demo_heap 2 demo_viewport))) = getView (map' demo_viewport) \<and>
   getView (map' (removeLayer 1 demo_viewport)) = getView (map' demo_viewport) \<and>
   layers Viewport_new = [] \<and> is_ChannelLayer (demo_heap 2) \<and>
   getView (map' (snd (addLayer demo_heap 2 Viewport_new))) =
     ol_View_new (Some
       \<lparr>projection = \<lparr>code = ''tm'', units = ''pixels'', extent = [0, 0, 30, 40]\<rparr>,
        center = [15, - 20],
        zoom = 0\<rparr>)"
proof -
  have ne: "layers demo_viewport \<noteq> []"
    by (simp add: demo_viewport_eq)
  have e: "layers Viewport_new = []"
    by (simp add: Viewport_new_def)
  have c: "demo_heap 2 = ChannelLayer (30, 40)"
    by (simp add: demo_heap_def)
  from view_kept_while_layers_owned [of demo_viewport demo_heap 2 1]
    view_kept_while_layers_owned [of Viewport_new demo_heap 2 1] ne e c
  show ?thesis
    by (simp add: demo_viewport_eq)
qed

text \<open>
  C5 as stated fails: the view is derived a second time. After channel layer 1
  (10 x 20) is added to a fresh viewport and removed again, the owned list is empty,
  and adding channel layer 2 (30 x 40) returns normally with a view that is not the one
  the first add installed.
\<close>

theorem view_rederived_after_list_emptied:
  "layers (removeLayer 1 demo_viewport) = [] \<and>
   fst (addLayer demo_heap 2 (removeLayer 1 demo_viewport)) = Inr () \<and>
   getView (map' (snd (addLayer demo_heap 2 (removeLayer 1 demo_viewport)))) \<noteq>
     getView (map' demo_viewport)"
proof -
  have l: "layers (removeLayer 1 demo_viewport) = []"
    by (simp add: layers_removeLayer demo_viewport_eq)
  have v: "getView (map' (removeLayer 1 demo_viewport)) = getView (map' demo_viewport)"
    by (simp add: getView_def mapView_removeLayer)
  show ?thesis
    using l
    by (simp add: addLayer_def Let_def push_def addToMap_def getView_def demo_heap_def
        Viewport_setView_def setView_def ol_View_new_def demo_viewport_eq)
qed

section \<open>Viewport.removeLayer\<close>

text \<open>
  C3 fails on the code. The viewport owns channel layer 1 only, and layer 2 is not in
  its owned list. \<open>removeLayer\<close> of layer 2 finds the index \<open>-1\<close>, and
  \<open>splice(-1, 1)\<close> deletes the last element: the owned list becomes empty, while layer
  1 is still on the map's render list.
\<close>

theorem removeLayer_absent_drops_last_layer:
  "layers demo_viewport = [1] \<and>
   indexOf 2 (layers demo_viewport) = - 1 \<and>
   layers (removeLayer 2 demo_viewport) = [] \<and>
   mapLayers (map' (removeLayer 2 demo_viewport)) = [1]"
proof -
  have "indexOf 2 (layers demo_viewport) = - 1"
    by (simp add: demo_viewport_eq indexOf_def)
  moreover have "layers (removeLayer 2 demo_viewport) = []"
    by (simp add: demo_viewport_eq layers_removeLayer)
  moreover have "mapLayers (map' (removeLayer 2 demo_viewport)) = [1]"
    by (simp add: demo_viewport_eq removeLayer_def Let_def removeFromMap_def)
  ultimately show ?thesis
    by (simp add: demo_viewport_eq)
qed

text \<open>
  C6. A layer that is in the owned list exactly once is, after \<open>removeLayer\<close> and then
  \<open>addLayer\<close> of it, again in the owned list exactly once, and the \<open>addLayer\<close>
  returns normally, provided the list is not empty in between or the layer is a
  ChannelLayer.
\<close>

theorem removeLayer_then_addLayer_once:
  assumes "count_list (layers vp) layer = 1"
    and "layers (removeLayer layer vp) \<noteq> [] \<or> is_ChannelLayer (h layer)"
  shows "fst (addLayer h layer (removeLayer layer vp)) = Inr () \<and>
         count_list (layers (snd (addLayer h layer (removeLayer layer vp)))) layer = 1"
proof -
  have m: "layer \<in> set (layers vp)"
    using assms(1) by (metis count_list_0_iff zero_neq_one)
  then have r: "layers (removeLayer layer vp) = remove1 layer (layers vp)"
    by (rule layers_removeLayer_present)
  have c: "count_list (layers (removeLayer layer vp)) layer = 0"
    using m assms(1) by (simp add: r count_list_remove1)
  have ok: "fst (addLayer h layer (removeLayer layer vp)) = Inr ()"
    using assms(2) by (auto simp add: addLayer_def Let_def)
  have "layers (snd (addLayer h layer (removeLayer layer vp))) =
          layers (removeLayer layer vp) @ [layer]"
    using assms(2) by (auto simp add: addLayer_def Let_def push_def Viewport_setView_def)
  with c ok show ?thesis
    by simp
qed

theorem removeLayer_then_addLayer_once_witness:
  "count_list (layers demo_viewport) 1 = 1 \<and>
   layers (removeLayer 1 demo_viewport) = [] \<and>
   is_ChannelLayer (demo_heap 1) \<and>
   fst (addLayer demo_heap 1 (removeLayer 1 demo_viewport)) = Inr () \<and>
   count_list (layers (snd (addLayer demo_heap 1 (removeLayer 1 demo_viewport)))) 1 = 1 \<and>
   count_list (layers demo_two_layers) 3 = 1 \<and>
   layers (removeLayer 3 demo_two_layers) = [1] \<and>
   \<not> is_ChannelLayer (demo_heap 3) \<and>
   fst (addLayer demo_heap 3 (removeLayer 3 demo_two_layers)) = Inr () \<and>
   count_list (layers (snd (addLayer demo_heap 3 (removeLayer 3 demo_two_layers)))) 3 = 1"
proof -
  have a: "count_list (layers demo_viewport) 1 = 1"
    by (simp add: demo_viewport_eq)
  have e: "layers (removeLayer 1 demo_viewport) = []"
    by (simp add: layers_removeLayer demo_viewport_eq)
  have b: "is_ChannelLayer (demo_heap 1)"
    by (simp add: demo_heap_def)
  then have b': "layers (removeLayer 1 demo_viewport) \<noteq> [] \<or> is_ChannelLayer (demo_heap 1)"
    by simp
  have c: "count_list (layers demo_two_layers) 3 = 1"
    by (simp add: layers_demo_two_layers)
  have d: "layers (removeLayer 3 demo_two_layers) = [1]"
    by (simp add: layers_removeLayer layers_demo_two_layers)
  then have d': "layers (removeLayer 3 demo_two_layers) \<noteq> [] \<or> is_ChannelLayer (demo_heap 3)"
    by simp
  have n: "\<not> is_ChannelLayer (demo_heap 3)"
    by (simp add: demo_heap_def)
  from removeLayer_then_addLayer_once [of demo_viewport 1 demo_heap, OF a b']
    removeLayer_then_addLayer_once [of demo_two_layers 3 demo_heap, OF c d'] a e b c d n
  show ?thesis
    by simp
qed

section \<open>Viewport.goToMapObject\<close>

text \<open>
  C7. \<open>goToMapObject\<close> leaves the owned layers list as it was. Of the map it changes
  the current view's framing only: the render list, the map's size and the view's
  construction options (projection, center, zoom) are as before.
\<close>

theorem goToMapObject_keeps_layers:
  "layers (goToMapObject obj vp) = layers vp \<and>
   mapLayers (map' (goToMapObject obj vp)) = mapLayers (map' vp) \<and>
   getSize (map' (goToMapObject obj vp)) = getSize (map' vp) \<and>
   viewOptions (getView (map' (goToMapObject obj vp))) = viewOptions (getView (map' vp))"
  by (simp add: goToMapObject_def Let_def fit_def getView_def getSize_def)

text \<open>
  C8. \<open>goToMapObject\<close> fits the map's current view to the geometry of the feature of
  the object's visual, for the map's size, with the padding [100, 100, 100, 100].
\<close>

theorem goToMapObject_fits_with_padding_100:
  "getView (map' (goToMapObject obj vp)) =
     fit (getGeometry (olFeature (getVisual obj))) (getSize (map' vp))
       \<lparr>padding = [100, 100, 100, 100]\<rparr> (getView (map' vp)) \<and>
   fitted (getView (map' (goToMapObject obj vp))) =
     Some \<lparr>fitGeometry = getGeometry (olFeature (getVisual obj)),
           fitSize = getSize (map' vp),
           fitOptions = \<lparr>padding = [100, 100, 100, 100]\<rparr>\<rparr>"
  by (simp add: goToMapObject_def Let_def fit_def getView_def getSize_def)

section \<open>Viewport.serialize\<close>

text \<open>
  C9. \<open>serialize\<close> returns the empty object, whatever the viewport's state, and leaves
  the viewport as it was.
\<close>

theorem serialize_returns_empty_object:
  "fst (serialize vp) = Obj [] \<and> snd (serialize vp) = vp"
  by (simp add: serialize_def)

section \<open>ToolbarCtrl\<close>

text \<open>
  C10. A toolbar controller just constructed has the empty tools list. After the source
  resolves with [A, B] the tools list is [A, B]. \<open>clickToolTab A\<close> then hands the sibling
  controller one more \<open>toggleToolWindow\<close> request, for A, and changes nothing else; the
  same holds for \<open>clickToolTab\<close> in any state.
\<close>

theorem toolbar_tools_and_clickToolTab:
  "tools (ToolbarCtrl_new calls) = [] \<and>
   tools (resolveTools [A, B] (ToolbarCtrl_new calls)) = [A, B] \<and>
   clickToolTab A (resolveTools [A, B] (ToolbarCtrl_new calls)) =
     (resolveTools [A, B] (ToolbarCtrl_new calls))\<lparr>toggleToolWindowCalls := calls @ [A]\<rparr> \<and>
   clickToolTab tool w = w\<lparr>toggleToolWindowCalls := toggleToolWindowCalls w @ [tool]\<rparr>"
  by (simp add: ToolbarCtrl_new_def resolveTools_def toolsCallback_def clickToolTab_def
      toggleToolWindow_def)

end
